theory Spec2Isabelle
  imports Complex_Main "HOL-Library.AList" "HOL-Library.Log_Nat"
begin

section \<open>Build stage: domains, palettes and colors (build_heatmap.py)\<close>

text \<open>
  The build script works on IEEE doubles. A number is modelled by the real it denotes,
  and the quantile, the palette and the tick positions are computed in the exact
  arithmetic the script approximates. Three places where the machine types decide what
  the script returns are modelled as the machine does them: the sum \<open>vmin + 1.0\<close> of the
  rate clamp is rounded to a double, the cast of the rate ticks to 64-bit integers
  overflows, and a money tick keeps the sign bit of its raw value. A missing observation
  (NaN or None in a pandas column) is \<open>None\<close>.
\<close>

datatype metric = avg_tip | med_tip | avg_rate

definition metrics :: "metric list" where
  "metrics = [avg_tip, med_tip, avg_rate]"

fun metric_name :: "metric \<Rightarrow> string" where
  "metric_name avg_tip = ''avg_tip''"
| "metric_name med_tip = ''med_tip''"
| "metric_name avg_rate = ''avg_rate''"

datatype py_error = KeyError string | ValueError string

subsection \<open>Rounding\<close>

text \<open>
  To the nearest integer, a tie going to the even neighbour: \<open>np.round\<close>, and the way a
  double rounds its significand.
\<close>

definition np_round :: "real \<Rightarrow> int" where
  "np_round x =
     (let f = \<lfloor>x\<rfloor>; d = x - of_int f in
      if d < 1 / 2 then f
      else if d > 1 / 2 then f + 1
      else if even f then f else f + 1)"

text \<open>
  Rounding of a real to the nearest double: a double has 53 significant bits, so in the
  binade \<open>2^e \<le> |x| < 2^(e+1)\<close> the doubles are the multiples of \<open>2^(e-52)\<close>. The
  exponent range is not limited here; the sum rounded below is at least 1 and at most
  the largest double.
\<close>

definition two_to :: "int \<Rightarrow> real" where
  "two_to e = (if e \<ge> 0 then 2 ^ nat e else 1 / 2 ^ nat (- e))"

definition exponent :: "real \<Rightarrow> int" where
  "exponent x =
     (if \<bar>x\<bar> \<ge> 1 then bitlen \<lfloor>\<bar>x\<bar>\<rfloor> - 1 else - bitlen (\<lceil>1 / \<bar>x\<bar>\<rceil> - 1))"

definition fl :: "real \<Rightarrow> real" where
  "fl x =
     (if x = 0 then 0
      else let ulp = two_to (exponent x - 52) in of_int (np_round (x / ulp)) * ulp)"

subsection \<open>RangeCalculator: \<open>robust_range\<close>\<close>

text \<open>\<open>pd.Series(series).dropna().to_numpy()\<close>: the observations that are present, in order.\<close>

definition dropna :: "real option list \<Rightarrow> real list" where
  "dropna series = List.map_filter (\<lambda>v. v) series"

text \<open>
  \<open>np.nanquantile(arr, q)\<close> on an array without NaN, with numpy's default method
  (\<open>linear\<close>): the virtual index \<open>(n - 1) * q\<close> into the sorted array, and linear
  interpolation between the two neighbouring order statistics.
\<close>

definition nanquantile :: "real list \<Rightarrow> real \<Rightarrow> real" where
  "nanquantile arr q =
     (let s = sort arr;
          n = length s;
          virtual_index = real (n - 1) * q;
          previous_index = nat \<lfloor>virtual_index\<rfloor>;
          next_index = min (previous_index + 1) (n - 1);
          gamma = virtual_index - real previous_index
      in s ! previous_index + (s ! next_index - s ! previous_index) * gamma)"

text \<open>
  \<open>robust_range\<close>. The sum \<open>vmin + 1.0\<close> of the rate clamp is a double addition and
  is rounded.
\<close>

definition robust_range :: "real option list \<Rightarrow> bool \<Rightarrow> real \<times> real" where
  "robust_range series is_rate =
     (let arr = dropna series in
      if length arr = 0 then (0, 1)
      else
        let vmin = nanquantile arr (3 / 1000);
            vmax = nanquantile arr (997 / 1000)
        in if is_rate then
             (let vmin' = max 0 vmin;
                  vmax' = max (fl (vmin' + 1)) vmax
              in (vmin', vmax'))
           else (vmin, vmax))"

text \<open>
  \<open>ranges[m] = robust_range(all_vals, is_rate=(m == "avg_rate"))\<close>, where \<open>all_vals\<close> is
  the column of metric \<open>m\<close> concatenated over all years.
\<close>

definition ranges :: "(metric \<Rightarrow> real option list) \<Rightarrow> metric \<Rightarrow> real \<times> real" where
  "ranges all_vals m = robust_range (all_vals m) (m = avg_rate)"

subsection \<open>ColorMapper: the palette and \<open>color_for\<close>\<close>

text \<open>
  \<open>linear.RdYlGn_11\<close> is branca's linear colormap over the eleven ColorBrewer RdYlGn
  stops. A colormap holds its colors as RGBA tuples of floats in \<open>[0, 1]\<close> and the index
  (threshold) of each color.
\<close>

type_synonym rgba = "real \<times> real \<times> real \<times> real"

record colormap =
  colors :: "rgba list"
  index :: "real list"

definition parse_hex :: "nat \<times> nat \<times> nat \<Rightarrow> rgba" where
  "parse_hex c = (case c of (r, g, b) \<Rightarrow> (real r / 255, real g / 255, real b / 255, 1))"

definition RdYlGn_11_colors :: "rgba list" where
  "RdYlGn_11_colors = map parse_hex
     [(0xa5, 0x00, 0x26), (0xd7, 0x30, 0x27), (0xf4, 0x6d, 0x43), (0xfd, 0xae, 0x61),
      (0xfe, 0xe0, 0x8b), (0xff, 0xff, 0xbf), (0xd9, 0xef, 0x8b), (0xa6, 0xd9, 0x6a),
      (0x66, 0xbd, 0x63), (0x1a, 0x98, 0x50), (0x00, 0x68, 0x37)]"

text \<open>
  The base colormap has \<open>vmin = 0\<close>, \<open>vmax = 1\<close> and the evenly spaced index
  \<open>i / (n - 1)\<close>; \<open>scale(vmin, vmax)\<close> maps each index linearly onto the new domain.
\<close>

definition RdYlGn_11 :: colormap where
  "RdYlGn_11 = \<lparr>colors = RdYlGn_11_colors,
                index = map (\<lambda>i. 0 + (1 - 0) * real i / real (length RdYlGn_11_colors - 1))
                            [0..<length RdYlGn_11_colors]\<rparr>"

definition scale :: "colormap \<Rightarrow> real \<Rightarrow> real \<Rightarrow> colormap" where
  "scale cm vmin vmax =
     \<lparr>colors = colors cm,
      index = map (\<lambda>x. vmin + (vmax - vmin) * (x - 0) / (1 - 0)) (index cm)\<rparr>"

definition lerp_rgba :: "real \<Rightarrow> rgba \<Rightarrow> rgba \<Rightarrow> rgba" where
  "lerp_rgba p c0 c1 =
     (case (c0, c1) of ((r0, g0, b0, a0), (r1, g1, b1, a1)) \<Rightarrow>
        ((1 - p) * r0 + p * r1, (1 - p) * g0 + p * g1,
         (1 - p) * b0 + p * b1, (1 - p) * a0 + p * a1))"

definition rgba_floats_tuple :: "colormap \<Rightarrow> real \<Rightarrow> py_error + rgba" where
  "rgba_floats_tuple cm x =
     (if x \<le> hd (index cm) then Inr (hd (colors cm))
      else if x \<ge> last (index cm) then Inr (last (colors cm))
      else
        let i = length (filter (\<lambda>u. u < x) (index cm)) in
        if index cm ! (i - 1) < index cm ! i then
          Inr (lerp_rgba ((x - index cm ! (i - 1)) / (index cm ! i - index cm ! (i - 1)))
                 (colors cm ! (i - 1)) (colors cm ! i))
        else if index cm ! (i - 1) = index cm ! i then
          Inr (lerp_rgba 1 (colors cm ! (i - 1)) (colors cm ! i))
        else Inl (ValueError ''Thresholds are not sorted.''))"

text \<open>\<open>int(u * 255.9999)\<close> for a channel \<open>u \<ge> 0\<close>, and the format \<open>%02x\<close>.\<close>

definition channel_byte :: "real \<Rightarrow> nat" where
  "channel_byte u = nat \<lfloor>u * (2559999 / 10000)\<rfloor>"

definition hexdigit :: "nat \<Rightarrow> char" where
  "hexdigit d = ''0123456789abcdef'' ! d"

fun hex_str :: "nat \<Rightarrow> string" where
  "hex_str n = (if n < 16 then [hexdigit n] else hex_str (n div 16) @ [hexdigit (n mod 16)])"

declare hex_str.simps [simp del]

definition fmt_02x :: "nat \<Rightarrow> string" where
  "fmt_02x n = replicate (2 - length (hex_str n)) (CHR ''0'') @ hex_str n"

definition rgba_hex_str :: "colormap \<Rightarrow> real \<Rightarrow> py_error + string" where
  "rgba_hex_str cm x =
     (case rgba_floats_tuple cm x of
        Inl e \<Rightarrow> Inl e
      | Inr (r, g, b, a) \<Rightarrow>
          Inr (''#'' @ fmt_02x (channel_byte r) @ fmt_02x (channel_byte g)
                     @ fmt_02x (channel_byte b) @ fmt_02x (channel_byte a)))"

text \<open>\<open>PALETTES = {m: linear.RdYlGn_11.scale(*ranges[m]) for m in metrics}\<close>\<close>

definition PALETTES :: "(metric \<Rightarrow> real \<times> real) \<Rightarrow> metric \<Rightarrow> colormap" where
  "PALETTES rng m = scale RdYlGn_11 (fst (rng m)) (snd (rng m))"

definition color_for :: "(metric \<Rightarrow> real \<times> real) \<Rightarrow> metric \<Rightarrow> real option \<Rightarrow> py_error + string" where
  "color_for rng m val =
     (case val of
        None \<Rightarrow> Inr ''#cccccc''
      | Some v \<Rightarrow> rgba_hex_str (PALETTES rng m) v)"

subsection \<open>SceneBuilder: the properties of a feature\<close>

text \<open>
  For every row the build computes \<open>color_<metric>\<close> with \<open>color_for\<close> for each of the
  three metrics, sets \<open>cur_color\<close> to the color of the default metric, and writes these
  with the tooltip markup into the properties of the row's feature. An exception raised
  by the palette would abort the build.
\<close>

definition default_metric :: metric where
  "default_metric = avg_tip"

definition feature_properties ::
  "(metric \<Rightarrow> real \<times> real) \<Rightarrow> (metric \<Rightarrow> real option) \<Rightarrow> string
     \<Rightarrow> py_error + (string \<times> string) list" where
  "feature_properties rng row tooltip_html =
     (case color_for rng avg_tip (row avg_tip) of
        Inl e \<Rightarrow> Inl e
      | Inr color_avg_tip \<Rightarrow>
     (case color_for rng med_tip (row med_tip) of
        Inl e \<Rightarrow> Inl e
      | Inr color_med_tip \<Rightarrow>
     (case color_for rng avg_rate (row avg_rate) of
        Inl e \<Rightarrow> Inl e
      | Inr color_avg_rate \<Rightarrow>
          Inr [(''color_avg_tip'', color_avg_tip),
               (''color_med_tip'', color_med_tip),
               (''color_avg_rate'', color_avg_rate),
               (''cur_color'', (case default_metric of
                                  avg_tip \<Rightarrow> color_avg_tip
                                | med_tip \<Rightarrow> color_med_tip
                                | avg_rate \<Rightarrow> color_avg_rate)),
               (''tooltip_html'', tooltip_html)])))"

subsection \<open>LegendBuilder: ticks and labels of \<open>make_continuous_legend_html\<close>\<close>

text \<open>
  \<open>np.linspace(start, stop, num)\<close> with the default \<open>endpoint=True\<close>: \<open>num\<close> samples
  \<open>i * step + start\<close> with \<open>step = (stop - start) / (num - 1)\<close>, the last one set to
  \<open>stop\<close>; a single sample is \<open>start\<close>.
\<close>

definition linspace :: "real \<Rightarrow> real \<Rightarrow> nat \<Rightarrow> real list" where
  "linspace start stop num =
     (let dv = num - 1;
          delta = stop - start;
          y = map (\<lambda>i. (if dv > 0 then real i * (delta / real dv) else real i * delta) + start)
                  [0..<num]
      in if num > 1 then y[num - 1 := stop] else y)"

definition digit :: "nat \<Rightarrow> char" where
  "digit d = ''0123456789'' ! d"

fun dec_str :: "nat \<Rightarrow> string" where
  "dec_str n = (if n < 10 then [digit n] else dec_str (n div 10) @ [digit (n mod 10)])"

declare dec_str.simps [simp del]

text \<open>
  The format \<open>{t:.2f}\<close> of a double, given by its sign bit and its magnitude: a minus
  sign when the sign bit is set (a negative zero prints \<open>-0.00\<close>), then integer part,
  point and two decimals of the magnitude rounded to hundredths. The format \<open>{t:d}\<close> of
  an integer: sign and decimal digits.
\<close>

definition fmt_2f :: "bool \<Rightarrow> real \<Rightarrow> string" where
  "fmt_2f sign_bit magnitude =
     (let n = nat (np_round (magnitude * 100)) in
      (if sign_bit then ''-'' else []) @ dec_str (n div 100) @ ''.''
        @ [digit (n mod 100 div 10), digit (n mod 10)])"

definition fmt_d :: "int \<Rightarrow> string" where
  "fmt_d k = (if k < 0 then ''-'' else []) @ dec_str (nat \<bar>k\<bar>)"

text \<open>
  \<open>astype(int)\<close>: the cast of an integral double to a signed 64-bit integer. A value
  outside the range of the type becomes the smallest 64-bit integer (what the conversion
  instruction of x86-64 returns).
\<close>

definition astype_int :: "int \<Rightarrow> int" where
  "astype_int k = (if - (2 ^ 63) \<le> k \<and> k < 2 ^ 63 then k else - (2 ^ 63))"

text \<open>
  The two branches of the legend builder. In money mode the ticks are doubles,
  \<open>np.round(raw_ticks * 2) / 2.0\<close>; rounding and halving keep the sign bit of the raw
  tick, so a negative raw tick that rounds to zero is the negative zero. Otherwise the
  ticks are 64-bit integers, \<open>np.round(raw_ticks).astype(int)\<close>. The ticks are given by
  their values.
\<close>

definition legend_ticks :: "real \<Rightarrow> real \<Rightarrow> nat \<Rightarrow> bool \<Rightarrow> real list" where
  "legend_ticks vmin vmax n_ticks money_mode =
     (let raw_ticks = linspace vmin vmax n_ticks in
      if money_mode then map (\<lambda>r. of_int (np_round (r * 2)) / 2) raw_ticks
      else map (\<lambda>r. of_int (astype_int (np_round r))) raw_ticks)"

definition legend_labels :: "real \<Rightarrow> real \<Rightarrow> nat \<Rightarrow> bool \<Rightarrow> string list" where
  "legend_labels vmin vmax n_ticks money_mode =
     (let raw_ticks = linspace vmin vmax n_ticks in
      if money_mode then
        map (\<lambda>r. fmt_2f (r < 0) \<bar>of_int (np_round (r * 2)) / 2\<bar>) raw_ticks
      else map (\<lambda>r. fmt_d (astype_int (np_round r))) raw_ticks)"

text \<open>
  The domains whose ticks the machine types hold. In money mode the ticks are doubles:
  the width of the domain and the doubled ticks must be finite doubles, which they are up
  to \<open>2^1022\<close> in magnitude. Otherwise the ticks are 64-bit integers.
\<close>

definition tick_domain :: "bool \<Rightarrow> real \<Rightarrow> real \<Rightarrow> bool" where
  "tick_domain money_mode vmin vmax =
     (vmin \<le> vmax \<and>
      (if money_mode then - (2 ^ 1022) \<le> vmin \<and> vmax \<le> 2 ^ 1022
       else - (2 ^ 63) \<le> vmin \<and> vmax \<le> 2 ^ 63 - 1))"

text \<open>
  What the legend is described to print. For a money metric: a value of \<open>k\<close>
  half-units with its sign and two decimals. For the rate metric a plain count: a text
  that reads as an integer, an optional minus sign followed by decimal digits only.
\<close>

definition half_unit_label :: "bool \<Rightarrow> int \<Rightarrow> string" where
  "half_unit_label negative k =
     (if negative then ''-'' else []) @ dec_str (nat \<bar>k\<bar> div 2) @ ''.''
       @ (if even k then ''00'' else ''50'')"





subsection \<open>Input tables: the trip-count column\<close>

text \<open>
  A year's table, by column name; only its numeric columns matter here. Reading a column
  that is absent raises \<open>KeyError\<close>.
\<close>

type_synonym gdf = "string \<rightharpoonup> real option list"

definition count_col :: "gdf \<Rightarrow> string" where
  "count_col g = (if ''num_trips'' \<in> dom g then ''num_trips'' else ''num_tips'')"

text \<open>
  \<open>f"{int(v):,}"\<close>: the value truncated towards zero, printed with a comma between
  groups of three digits; a missing value prints as an em dash (its UTF-8 bytes).
\<close>

definition py_int :: "real \<Rightarrow> int" where
  "py_int v = (if v \<ge> 0 then \<lfloor>v\<rfloor> else \<lceil>v\<rceil>)"

fun group3 :: "string \<Rightarrow> string" where
  "group3 (a # b # c # d # rest) = a # b # c # CHR '','' # group3 (d # rest)"
| "group3 ds = ds"

definition fmt_thousands :: "int \<Rightarrow> string" where
  "fmt_thousands k =
     (if k < 0 then ''-'' else []) @ rev (group3 (rev (dec_str (nat \<bar>k\<bar>))))"

definition em_dash :: string where
  "em_dash = [CHR 0xE2, CHR 0x80, CHR 0x94]"

definition trips_cell :: "real option \<Rightarrow> string" where
  "trips_cell v = (case v of Some x \<Rightarrow> fmt_thousands (py_int x) | None \<Rightarrow> em_dash)"

definition num_trips_s :: "gdf \<Rightarrow> py_error + string list" where
  "num_trips_s g =
     (case g (count_col g) of
        None \<Rightarrow> Inl (KeyError (count_col g))
      | Some col \<Rightarrow> Inr (map trips_cell col))"

section \<open>ClientController: the script embedded in the generated page\<close>

text \<open>
  A Leaflet layer object, as the script inspects it:
  \<^item> \<open>properties\<close>: \<open>l.feature.properties\<close>, or \<open>None\<close> when \<open>l.feature\<close> or its
    properties are absent; an object of string-valued properties in insertion order;
  \<^item> \<open>style\<close>: the path options that \<open>l.setStyle\<close> writes, or \<open>None\<close> when the object
    has no \<open>setStyle\<close>;
  \<^item> \<open>children\<close>: the layers that \<open>l.eachLayer\<close> visits, or \<open>None\<close> when the object
    has no \<open>eachLayer\<close>;
  \<^item> \<open>highlightBound\<close>: the flag \<open>_highlightBound\<close>;
  \<^item> \<open>handlers\<close>: the event names of the listeners registered with \<open>on\<close>, in order.
\<close>

type_synonym props = "(string \<times> string) list"

datatype layer =
  Layer (properties: "props option") (style: "props option")
        (children: "layer list option") (highlightBound: bool) (handlers: "string list")

text \<open>
  The page: the global variables that hold layers (\<open>window[varName]\<close>), the names of the
  layers attached to the map, the elements with id \<open>tip-legend\<close> in document order
  (by their markup), the state of the two radio groups, and what was written with
  \<open>console.error\<close> (the year and the variable name looked up for it).
\<close>

record page =
  window :: "(string \<times> layer) list"
  on_map :: "string set"
  legend_dom :: "string list"
  metric_sel :: metric
  year_sel :: string
  console :: "(string \<times> string option) list"

text \<open>
  The constants the build writes into the script: \<open>YEAR_TO_VARNAME\<close> and
  \<open>LEGEND_BY_METRIC\<close>.
\<close>

record artifact =
  YEAR_TO_VARNAME :: "(string \<times> string) list"
  LEGEND_BY_METRIC :: "metric \<Rightarrow> string"

definition removeLegend :: "page \<Rightarrow> page" where
  "removeLegend s = s\<lparr>legend_dom := (case legend_dom s of [] \<Rightarrow> [] | el # els \<Rightarrow> els)\<rparr>"

definition addLegend :: "artifact \<Rightarrow> metric \<Rightarrow> page \<Rightarrow> page" where
  "addLegend c m s =
     (let s' = removeLegend s in s'\<lparr>legend_dom := legend_dom s' @ [LEGEND_BY_METRIC c m]\<rparr>)"

definition layerFromVar :: "page \<Rightarrow> string option \<Rightarrow> layer option" where
  "layerFromVar s varName = (case varName of None \<Rightarrow> None | Some v \<Rightarrow> map_of (window s) v)"

fun hideAllYears_loop :: "(string \<times> string) list \<Rightarrow> page \<Rightarrow> page" where
  "hideAllYears_loop [] s = s"
| "hideAllYears_loop ((year, vname) # rest) s =
     hideAllYears_loop rest
       (case layerFromVar s (Some vname) of
          Some lyr \<Rightarrow> if vname \<in> on_map s then s\<lparr>on_map := on_map s - {vname}\<rparr> else s
        | None \<Rightarrow> s)"

definition hideAllYears :: "artifact \<Rightarrow> page \<Rightarrow> page" where
  "hideAllYears c s = hideAllYears_loop (YEAR_TO_VARNAME c) s"

text \<open>The variables of \<open>YEAR_TO_VARNAME\<close> that hold a layer: what \<open>hideAllYears\<close> detaches.\<close>

definition year_layers :: "artifact \<Rightarrow> page \<Rightarrow> string set" where
  "year_layers c s =
     set (filter (\<lambda>vname. layerFromVar s (Some vname) \<noteq> None) (map snd (YEAR_TO_VARNAME c)))"

text \<open>\<open>props[colorProp] || "#cccccc"\<close>: an absent or empty property is falsy.\<close>

definition fill_of :: "props \<Rightarrow> string \<Rightarrow> string" where
  "fill_of p colorProp =
     (case map_of p colorProp of
        None \<Rightarrow> ''#cccccc''
      | Some col \<Rightarrow> if col = [] then ''#cccccc'' else col)"

fun applyToLayer :: "string \<Rightarrow> layer \<Rightarrow> layer" where
  "applyToLayer colorProp (Layer ps st kids bound hs) =
     Layer (case ps of
              None \<Rightarrow> None
            | Some p \<Rightarrow> Some (AList.update ''cur_color'' (fill_of p colorProp) p))
           (case ps of
              None \<Rightarrow> st
            | Some p \<Rightarrow> map_option (AList.update ''fillColor'' (fill_of p colorProp)) st)
           (case kids of
              None \<Rightarrow> None
            | Some ks \<Rightarrow> Some (map (applyToLayer colorProp) ks))
           bound hs"

definition recolorLayerByMetric :: "layer \<Rightarrow> metric \<Rightarrow> layer" where
  "recolorLayerByMetric lyr m = applyToLayer (''color_'' @ metric_name m) lyr"

definition bindHighlight :: "layer \<Rightarrow> layer" where
  "bindHighlight featLayer =
     (if highlightBound featLayer then featLayer
      else Layer (properties featLayer) (style featLayer) (children featLayer) True
             (handlers featLayer @ [''mouseover'', ''mouseout'']))"

definition attachHighlightHandlers :: "layer \<Rightarrow> layer" where
  "attachHighlightHandlers lyr =
     (case children lyr of
        None \<Rightarrow> lyr
      | Some kids \<Rightarrow>
          Layer (properties lyr) (style lyr) (Some (map bindHighlight kids))
                (highlightBound lyr) (handlers lyr))"

text \<open>The listeners on the layers that \<open>attachHighlightHandlers\<close> visits.\<close>

definition child_handlers :: "layer \<Rightarrow> string list list" where
  "child_handlers lyr = (case children lyr of None \<Rightarrow> [] | Some kids \<Rightarrow> map handlers kids)"

definition showYearAndMetric :: "artifact \<Rightarrow> page \<Rightarrow> metric \<Rightarrow> string \<Rightarrow> page" where
  "showYearAndMetric c s0 m year =
     (let s = hideAllYears c s0;
          vname = map_of (YEAR_TO_VARNAME c) year
      in case (vname, layerFromVar s vname) of
           (Some v, Some lyr) \<Rightarrow>
             addLegend c m
               (s\<lparr>on_map := insert v (on_map s),
                  window := AList.update v
                              (attachHighlightHandlers (recolorLayerByMetric lyr m))
                              (window s)\<rparr>)
         | _ \<Rightarrow> s\<lparr>console := console s @ [(year, vname)]\<rparr>)"







text \<open>The features of a layer: the property objects found anywhere in its tree.\<close>

fun features :: "layer \<Rightarrow> props list" where
  "features (Layer ps st kids bound hs) =
     (case ps of None \<Rightarrow> [] | Some p \<Rightarrow> [p])
     @ (case kids of None \<Rightarrow> [] | Some ks \<Rightarrow> concat (map features ks))"

text \<open>
  A feature as the build writes it carries a non-empty color string for every metric
  (\<open>color_for\<close> returns the grey or a palette string), and every layer the build attaches
  to the map is registered in \<open>YEAR_TO_VARNAME\<close>.
\<close>

definition feature_ok :: "props \<Rightarrow> bool" where
  "feature_ok p =
     list_all (\<lambda>m. case map_of p (''color_'' @ metric_name m) of
                      None \<Rightarrow> False
                    | Some col \<Rightarrow> col \<noteq> []) metrics"





subsection \<open>A small generated page\<close>

text \<open>
  Two years with one zone each, in the shape the build produces: a feature group per
  year holding one GeoJson layer per zone, which holds the polygon with the feature.
  The first year is on the map, with the legend of the default metric.
\<close>

definition demo_zone :: "string \<Rightarrow> string \<Rightarrow> string \<Rightarrow> layer" where
  "demo_zone c_avg c_med c_rate =
     Layer None (Some []) (Some
       [Layer (Some [(''color_avg_tip'', c_avg), (''color_med_tip'', c_med),
                     (''color_avg_rate'', c_rate), (''cur_color'', c_avg),
                     (''tooltip_html'', ''<div>zone</div>'')])
              (Some [(''fillColor'', c_avg)]) None False []])
       False []"

definition demo_artifact :: artifact where
  "demo_artifact =
     \<lparr>YEAR_TO_VARNAME = [(''2015'', ''feature_group_a''), (''2016'', ''feature_group_b'')],
      LEGEND_BY_METRIC = (\<lambda>m. ''<div id=tip-legend>'' @ metric_name m @ ''</div>'')\<rparr>"

definition demo_page :: page where
  "demo_page =
     \<lparr>window =
        [(''feature_group_a'',
          Layer None (Some []) (Some [demo_zone ''#a50026ff'' ''#006837ff'' ''#cccccc''])
                False []),
         (''feature_group_b'',
          Layer None (Some []) (Some [demo_zone ''#fdae61ff'' ''#d9ef8bff'' ''#66bd63ff''])
                False [])],
      on_map = {''feature_group_a''},
      legend_dom = [''<div id=tip-legend>avg_tip</div>''],
      metric_sel = avg_tip,
      year_sel = ''2015'',
      console = []\<rparr>"

subsection \<open>Scenario data\<close>

text \<open>Four observations of the average tip, one of them an extreme outlier.\<close>

definition outlier_obs :: "metric \<Rightarrow> real option list" where
  "outlier_obs m = (if m = avg_tip then [Some 3, Some 4, Some 5, Some 100] else [])"

text \<open>A single, very large observation of the rate.\<close>

definition huge_rate :: "real option list" where
  "huge_rate = [Some (10 ^ 17)]"

section \<open>Properties of the build stage\<close>

subsection \<open>Rounding\<close>

lemma np_round_mono: "x \<le> y \<Longrightarrow> np_round x \<le> np_round y"
proof -
  assume xy: "x \<le> y"
  have fl: "\<lfloor>x\<rfloor> \<le> \<lfloor>y\<rfloor>" using xy by (rule floor_mono)
  show ?thesis
  proof (cases "\<lfloor>x\<rfloor> = \<lfloor>y\<rfloor>")
    case True
    then have "x - of_int \<lfloor>x\<rfloor> \<le> y - of_int \<lfloor>y\<rfloor>" using xy by simp
    with True show ?thesis by (auto simp: np_round_def Let_def)
  next
    case False
    with fl have "\<lfloor>x\<rfloor> + 1 \<le> \<lfloor>y\<rfloor>" by simp
    moreover have "np_round x \<le> \<lfloor>x\<rfloor> + 1" by (simp add: np_round_def Let_def)
    moreover have "\<lfloor>y\<rfloor> \<le> np_round y" by (simp add: np_round_def Let_def)
    ultimately show ?thesis by linarith
  qed
qed

lemma np_round_nearest: "\<bar>real_of_int (np_round x) - x\<bar> \<le> 1 / 2"
proof -
  have "of_int \<lfloor>x\<rfloor> \<le> x" "x < of_int \<lfloor>x\<rfloor> + 1" by linarith+
  then show ?thesis by (auto simp: np_round_def Let_def)
qed

lemma np_round_of_int: "np_round (of_int k) = k"
  by (simp add: np_round_def)

lemma two_to_powr: "two_to e = 2 powr (of_int e)"
proof (cases "e \<ge> 0")
  case True
  have "(2::real) ^ nat e = 2 powr real (nat e)" by (rule powr_realpow [symmetric]) simp
  moreover have "real (nat e) = of_int e" using True by simp
  ultimately show ?thesis using True by (simp add: two_to_def)
next
  case False
  have "(2::real) ^ nat (- e) = 2 powr real (nat (- e))" by (rule powr_realpow [symmetric]) simp
  moreover have "real (nat (- e)) = - of_int e" using False by simp
  ultimately show ?thesis using False by (simp add: two_to_def powr_minus field_simps)
qed

lemma two_to_pos: "0 < two_to e"
  by (simp add: two_to_powr)

lemma two_to_split: "two_to e = two_to (e - 52) * 2 ^ 52"
proof -
  have "two_to e = 2 powr (of_int (e - 52) + 52)" by (simp add: two_to_powr)
  also have "\<dots> = 2 powr (of_int (e - 52)) * 2 powr 52" by (simp only: powr_add)
  also have "(2::real) powr 52 = 2 ^ 52" by (simp add: powr_numeral)
  finally show ?thesis by (simp add: two_to_powr)
qed

lemma exponent_bounds:
  assumes "1 \<le> x"
  shows "0 \<le> exponent x" "two_to (exponent x) \<le> x" "x < 2 * two_to (exponent x)"
proof -
  let ?m = "\<lfloor>x\<rfloor>"
  have m: "0 < ?m" using assms by simp
  have e: "exponent x = bitlen ?m - 1" using assms by (simp add: exponent_def)
  have b: "1 \<le> bitlen ?m" using m bitlen_eq_zero_iff [of ?m] bitlen_nonneg [of ?m] by linarith
  then show "0 \<le> exponent x" by (simp add: e)
  from bitlen_bounds [OF m] have lo: "2 ^ nat (bitlen ?m - 1) \<le> ?m" and hi: "?m < 2 ^ nat (bitlen ?m)"
    by simp_all
  have t: "two_to (exponent x) = 2 ^ nat (bitlen ?m - 1)" using b by (simp add: e two_to_def)
  have "real_of_int (2 ^ nat (bitlen ?m - 1)) \<le> real_of_int ?m" using lo by (simp only: of_int_le_iff)
  also have "\<dots> \<le> x" by simp
  finally show "two_to (exponent x) \<le> x" by (simp add: t)
  have "nat (bitlen ?m) = Suc (nat (bitlen ?m - 1))" using b by simp
  then have "(2::int) ^ nat (bitlen ?m) = 2 * 2 ^ nat (bitlen ?m - 1)" by simp
  with hi have "?m + 1 \<le> 2 * 2 ^ nat (bitlen ?m - 1)" by simp
  then have "real_of_int (?m + 1) \<le> real_of_int (2 * 2 ^ nat (bitlen ?m - 1))"
    by (simp only: of_int_le_iff)
  moreover have "x < real_of_int (?m + 1)" by linarith
  ultimately have "x < real_of_int (2 * 2 ^ nat (bitlen ?m - 1))" by (rule less_le_trans [rotated])
  then show "x < 2 * two_to (exponent x)" by (simp add: t)
qed

text \<open>
  At 1 and above, rounding to a double moves a number by at most half a unit in the last
  place, which is at most \<open>2^-53\<close> of the number, and never below 1.
\<close>

lemma fl_bounds:
  assumes "1 \<le> x"
  shows "\<bar>fl x - x\<bar> \<le> x / 2 ^ 53" "1 \<le> fl x"
proof -
  define u where "u = two_to (exponent x - 52)"
  have u: "0 < u" by (simp add: u_def two_to_pos)
  have s: "two_to (exponent x) = u * 2 ^ 52" unfolding u_def by (rule two_to_split)
  have f: "fl x = of_int (np_round (x / u)) * u"
    using assms by (simp add: fl_def Let_def u_def)
  have lo: "u * 2 ^ 52 \<le> x" using exponent_bounds(2) [OF assms] by (simp add: s)
  have "\<bar>real_of_int (np_round (x / u)) - x / u\<bar> \<le> 1 / 2" by (rule np_round_nearest)
  then have "\<bar>real_of_int (np_round (x / u)) - x / u\<bar> * u \<le> 1 / 2 * u"
    using u by (intro mult_right_mono) simp_all
  moreover have "\<bar>real_of_int (np_round (x / u)) - x / u\<bar> * u = \<bar>fl x - x\<bar>"
  proof -
    have "(real_of_int (np_round (x / u)) - x / u) * u = fl x - x"
      using u by (simp add: f left_diff_distrib)
    then have "\<bar>fl x - x\<bar> = \<bar>real_of_int (np_round (x / u)) - x / u\<bar> * \<bar>u\<bar>"
      by (simp only: abs_mult [symmetric])
    then show ?thesis using u by simp
  qed
  ultimately have "\<bar>fl x - x\<bar> \<le> u / 2" by simp
  also have "u / 2 \<le> x / 2 ^ 53" using lo by (simp add: field_simps)
  finally show "\<bar>fl x - x\<bar> \<le> x / 2 ^ 53" .
  have "real_of_int (2 ^ 52) \<le> x / u" using lo u by (simp add: field_simps)
  then have "np_round (real_of_int (2 ^ 52)) \<le> np_round (x / u)" by (rule np_round_mono)
  then have "2 ^ 52 \<le> np_round (x / u)" by (simp only: np_round_of_int)
  then have "real_of_int (2 ^ 52) \<le> real_of_int (np_round (x / u))" by (simp only: of_int_le_iff)
  then have "real_of_int (2 ^ 52) * u \<le> fl x" using u by (simp add: f)
  moreover have "1 \<le> two_to (exponent x)"
    using exponent_bounds(1) [OF assms] by (simp add: two_to_def)
  ultimately show "1 \<le> fl x" by (simp add: s mult.commute)
qed

lemma exponent_huge: "exponent 100000000000000001 = 56"
  by (simp add: exponent_def compute_bitlen)

lemma fl_huge: "fl 100000000000000001 = 100000000000000000"
proof -
  have "np_round (100000000000000001 / 16) = 6250000000000000"
    by (simp add: np_round_def)
  then show ?thesis
    by (simp add: fl_def exponent_huge two_to_def)
qed

lemma fl_one: "fl 1 = 1"
proof -
  have "exponent 1 = 0" by (simp add: exponent_def compute_bitlen)
  moreover have "np_round 4503599627370496 = 4503599627370496"
    using np_round_of_int [of 4503599627370496] by simp
  ultimately show ?thesis by (simp add: fl_def two_to_def)
qed

subsection \<open>RangeCalculator\<close>

lemma dropna_all_missing: "\<forall>v\<in>set series. v = None \<Longrightarrow> dropna series = []"
  by (induction series) (simp_all add: dropna_def List.map_filter_simps)

text \<open>
  C8. A series whose observations are all missing (the empty series included) gets
  exactly the default domain \<open>(0.0, 1.0)\<close>, for a rate metric and for a money metric.
\<close>

theorem robust_range_all_missing:
  "\<forall>v\<in>set series. v = None \<Longrightarrow> robust_range series is_rate = (0, 1)"
  by (simp add: robust_range_def dropna_all_missing)

theorem robust_range_all_missing_witness:
  "robust_range [None, None, None] True = (0, 1) \<and> robust_range [] False = (0, 1)"
  using robust_range_all_missing [of "[None, None, None]" True]
        robust_range_all_missing [of "[]" False]
  by simp

lemma nanquantile_single: "nanquantile [v] q = v"
  by (simp add: nanquantile_def)

text \<open>
  C6, as stated, fails: the clamp adds \<open>1.0\<close> to \<open>vmin\<close> in double arithmetic, and from
  \<open>2^53\<close> on the sum rounds back to \<open>vmin\<close>. For a single observation of \<open>10^17\<close> the
  domain returned is \<open>(10^17, 10^17)\<close>, of width zero.
\<close>

theorem rate_clamp_rounding_counterexample:
  "robust_range huge_rate True = (10 ^ 17, 10 ^ 17) \<and>
   \<not> fst (robust_range huge_rate True) + 1 \<le> snd (robust_range huge_rate True)"
proof -
  have "robust_range huge_rate True = (10 ^ 17, 10 ^ 17)"
    by (simp add: robust_range_def huge_rate_def dropna_def List.map_filter_simps
          nanquantile_single fl_huge Let_def)
  then show ?thesis by simp
qed

text \<open>
  C6, amended. For a rate metric the domain returned for any series, empty and constant
  ones included, has \<open>vmin \<ge> 0\<close> and \<open>vmax\<close> at least the double nearest to
  \<open>vmin + 1\<close>. So \<open>vmax \<ge> 1\<close>, and \<open>vmax\<close> falls short of \<open>vmin + 1\<close> by at most the
  rounding of one double addition: \<open>vmax \<ge> (vmin + 1) (1 - 2^-53)\<close>.
\<close>

theorem robust_range_rate_clamp:
  "0 \<le> fst (robust_range series True) \<and>
   fl (fst (robust_range series True) + 1) \<le> snd (robust_range series True) \<and>
   1 \<le> snd (robust_range series True) \<and>
   (fst (robust_range series True) + 1) * (1 - 1 / 2 ^ 53) \<le> snd (robust_range series True)"
proof -
  define vmin where "vmin = fst (robust_range series True)"
  define vmax where "vmax = snd (robust_range series True)"
  have a: "0 \<le> vmin" by (simp add: vmin_def robust_range_def Let_def)
  note one = fl_one
  have b: "fl (vmin + 1) \<le> vmax"
    by (simp add: vmin_def vmax_def robust_range_def Let_def one)
  have x: "1 \<le> vmin + 1" using a by simp
  have c: "1 \<le> vmax" using fl_bounds(2) [OF x] b by linarith
  have "(vmin + 1) - (vmin + 1) / 2 ^ 53 \<le> fl (vmin + 1)"
    using fl_bounds(1) [OF x] by linarith
  moreover have "(vmin + 1) * (1 - 1 / 2 ^ 53) = (vmin + 1) - (vmin + 1) / 2 ^ 53"
    by (simp only: right_diff_distrib mult_1_right times_divide_eq_right)
  ultimately have d: "(vmin + 1) * (1 - 1 / 2 ^ 53) \<le> vmax"
    using b by linarith
  show ?thesis using a b c d by (simp add: vmin_def vmax_def)
qed

text \<open>
  C3, as stated, fails: with the four observations 3, 4, 5 and 100 the 99.7th percentile
  is interpolated between the two largest observations, at 0.991 of the way from 5 to
  100, so \<open>vmax\<close> is 99.145, nearer to 100 than to 5.
\<close>

theorem outlier_vmax_counterexample:
  "snd (ranges outlier_obs avg_tip) = 19829 / 200 \<and>
   \<not> \<bar>snd (ranges outlier_obs avg_tip) - 5\<bar> < \<bar>snd (ranges outlier_obs avg_tip) - 100\<bar>"
proof -
  have "snd (ranges outlier_obs avg_tip) = 19829 / 200"
    by code_simp
  then show ?thesis by simp
qed

text \<open>
  C3, amended. For these observations the domain is \<open>(3.009, 99.145)\<close>; the outlier 100
  lies above it and is given the color of the upper edge of the palette, the same color
  as \<open>vmax\<close> itself, and no error.
\<close>

theorem outlier_range_and_color:
  "ranges outlier_obs avg_tip = (3009 / 1000, 19829 / 200) \<and>
   color_for (ranges outlier_obs) avg_tip (Some 100) = Inr ''#006837ff'' \<and>
   color_for (ranges outlier_obs) avg_tip (Some (19829 / 200)) = Inr ''#006837ff''"
  by code_simp

subsection \<open>ColorMapper\<close>

lemma length_hex_str: "1 \<le> length (hex_str n)"
  by (subst hex_str.simps) simp

lemma length_fmt_02x: "2 \<le> length (fmt_02x n)"
  using length_hex_str [of n] by (simp add: fmt_02x_def)

lemma rgba_hex_str_length:
  assumes "rgba_hex_str cm x = Inr s"
  shows "9 \<le> length s"
proof -
  from assms obtain r g b a where
    s: "s = ''#'' @ fmt_02x (channel_byte r) @ fmt_02x (channel_byte g)
                  @ fmt_02x (channel_byte b) @ fmt_02x (channel_byte a)"
    by (auto simp: rgba_hex_str_def split: sum.splits)
  show ?thesis
    using length_fmt_02x [of "channel_byte r"] length_fmt_02x [of "channel_byte g"]
          length_fmt_02x [of "channel_byte b"] length_fmt_02x [of "channel_byte a"]
    by (simp add: s)
qed

lemma length_RdYlGn_11_colors: "length RdYlGn_11_colors = 11"
  by (simp add: RdYlGn_11_colors_def)

lemma index_scale:
  "index (scale RdYlGn_11 lo hi) = map (\<lambda>i. lo + (hi - lo) * (real i / 10)) [0..<11]"
  by (simp add: scale_def RdYlGn_11_def length_RdYlGn_11_colors del: upt_rec_numeral upt_Suc)

lemma index_scale_nth:
  "i \<le> 10 \<Longrightarrow> index (scale RdYlGn_11 lo hi) ! i = lo + (hi - lo) * (real i / 10)"
  unfolding index_scale by (subst nth_map) (simp_all del: upt_rec_numeral upt_Suc)

lemma length_index_scale: "length (index (scale RdYlGn_11 lo hi)) = 11"
  unfolding index_scale by (simp del: upt_rec_numeral upt_Suc)

lemma index_scale_hd: "hd (index (scale RdYlGn_11 lo hi)) = lo"
  using index_scale_nth [of 0 lo hi] length_index_scale [of lo hi]
  by (cases "index (scale RdYlGn_11 lo hi)") auto

lemma index_scale_last: "last (index (scale RdYlGn_11 lo hi)) = hi"
proof -
  have "index (scale RdYlGn_11 lo hi) \<noteq> []"
    using length_index_scale [of lo hi] by auto
  then show ?thesis
    using index_scale_nth [of 10 lo hi] length_index_scale [of lo hi]
    by (simp add: last_conv_nth)
qed

text \<open>
  The scaled palette never raises: between the two ends of the domain its thresholds
  are strictly increasing, and outside them the first two tests answer.
\<close>

lemma rgba_floats_tuple_total:
  "rgba_floats_tuple (scale RdYlGn_11 lo hi) x \<noteq> Inl e"
proof (cases "x \<le> lo \<or> hi \<le> x")
  case True
  then show ?thesis
    by (auto simp: rgba_floats_tuple_def index_scale_hd index_scale_last)
next
  case False
  then have lt: "lo < hi" by simp
  let ?ix = "index (scale RdYlGn_11 lo hi)"
  let ?i = "length (filter (\<lambda>u. u < x) ?ix)"
  have len: "length ?ix = 11" by (rule length_index_scale)
  have "last ?ix \<in> set ?ix" by (rule last_in_set) (use len in auto)
  moreover have "\<not> last ?ix < x" using False by (simp add: index_scale_last)
  ultimately have "?i < length ?ix"
    by (intro length_filter_less) auto
  then have i10: "?i \<le> 10" using len by simp
  then have "?ix ! (?i - 1) \<le> ?ix ! ?i"
    using lt by (simp add: index_scale_nth mult_left_mono divide_right_mono)
  then show ?thesis
    by (auto simp: rgba_floats_tuple_def Let_def)
qed

lemma color_for_Some:
  "\<exists>s. color_for rng m (Some v) = Inr s \<and> 9 \<le> length s"
proof (cases "rgba_hex_str (PALETTES rng m) v")
  case (Inl e)
  then show ?thesis
    using rgba_floats_tuple_total [of "fst (rng m)" "snd (rng m)" v]
    by (auto simp: rgba_hex_str_def PALETTES_def split: sum.splits)
next
  case (Inr s)
  then show ?thesis
    using rgba_hex_str_length [of "PALETTES rng m" v s] by (simp add: color_for_def)
qed

text \<open>
  C7. For every metric and every domain, a missing value is given the grey
  \<open>#cccccc\<close>, and every value that is present is given a palette string (never an
  error) that differs from that grey: the palette writes a \<open>#\<close> and four channels of
  two hexadecimal digits each, the grey has three.
\<close>

theorem color_for_missing_sentinel:
  "color_for rng m None = Inr ''#cccccc'' \<and>
   (\<forall>v. \<exists>s. color_for rng m (Some v) = Inr s \<and> s \<noteq> ''#cccccc'')"
proof
  show "color_for rng m None = Inr ''#cccccc''" by (simp add: color_for_def)
  show "\<forall>v. \<exists>s. color_for rng m (Some v) = Inr s \<and> s \<noteq> ''#cccccc''"
  proof
    fix v
    obtain s where s: "color_for rng m (Some v) = Inr s" "9 \<le> length s"
      using color_for_Some by blast
    then have "s \<noteq> ''#cccccc''" by auto
    with s show "\<exists>s. color_for rng m (Some v) = Inr s \<and> s \<noteq> ''#cccccc''" by blast
  qed
qed

subsection \<open>SceneBuilder\<close>

lemma color_for_nonempty: "\<exists>s. color_for rng m val = Inr s \<and> s \<noteq> []"
proof (cases val)
  case None
  then show ?thesis by (simp add: color_for_def)
next
  case (Some v)
  then show ?thesis using color_for_Some [of rng m v] by auto
qed

text \<open>
  The build never fails on the colors, and the properties it writes are well formed:
  a non-empty color for each metric, and \<open>cur_color\<close> equal to the color of the default
  metric.
\<close>

lemma feature_properties_ok:
  "\<exists>p. feature_properties rng row tooltip_html = Inr p \<and> feature_ok p \<and>
       map_of p ''cur_color'' = map_of p (''color_'' @ metric_name default_metric)"
proof -
  obtain a where a: "color_for rng avg_tip (row avg_tip) = Inr a" "a \<noteq> []"
    using color_for_nonempty by blast
  obtain b where b: "color_for rng med_tip (row med_tip) = Inr b" "b \<noteq> []"
    using color_for_nonempty by blast
  obtain c where c: "color_for rng avg_rate (row avg_rate) = Inr c" "c \<noteq> []"
    using color_for_nonempty by blast
  show ?thesis
    by (simp add: feature_properties_def a b c feature_ok_def metrics_def default_metric_def)
qed

subsection \<open>LegendBuilder\<close>

lemma linspace_eq:
  "linspace a b n = map (\<lambda>i. a + real i * ((b - a) / real (n - 1))) [0..<n]"
proof (cases "n > 1")
  case True
  have "(map (\<lambda>i. real i * ((b - a) / real (n - 1)) + a) [0..<n])[n - 1 := b]
        = map (\<lambda>i. a + real i * ((b - a) / real (n - 1))) [0..<n]"
    using True by (intro nth_equalityI) (auto simp: nth_list_update)
  then show ?thesis using True by (simp add: linspace_def Let_def)
next
  case False
  then have "n = 0 \<or> n = 1" by auto
  then show ?thesis by (auto simp: linspace_def)
qed

lemma linspace_bounds:
  assumes "a \<le> b" "r \<in> set (linspace a b n)"
  shows "a \<le> r" "r \<le> b"
proof -
  from assms(2) obtain i where i: "i < n" and r: "r = a + real i * ((b - a) / real (n - 1))"
    unfolding linspace_eq by auto
  have d: "0 \<le> (b - a) / real (n - 1)" using assms(1) by simp
  have "0 \<le> real i * ((b - a) / real (n - 1))"
    using d by (intro mult_nonneg_nonneg) simp_all
  then show "a \<le> r" unfolding r by (simp only: le_add_same_cancel1)
  show "r \<le> b"
  proof (cases "n = 1")
    case True
    with i have "i = 0" by simp
    then show ?thesis using assms(1) unfolding r by simp
  next
    case False
    with i have n: "0 < real (n - 1)" and le: "real i \<le> real (n - 1)" by simp_all
    have "real i * ((b - a) / real (n - 1)) \<le> real (n - 1) * ((b - a) / real (n - 1))"
      using le d by (rule mult_right_mono)
    also have "\<dots> = b - a" using n by simp
    finally have "a + real i * ((b - a) / real (n - 1)) \<le> a + (b - a)"
      by (simp only: add_le_cancel_left)
    then show ?thesis unfolding r by (simp only: add_diff_cancel_left' diff_add_cancel add.commute [of a] )
  qed
qed

lemma astype_int_in_range: "- (2 ^ 63) \<le> k \<Longrightarrow> k < 2 ^ 63 \<Longrightarrow> astype_int k = k"
  by (simp add: astype_int_def)

text \<open>Within the 64-bit range the rounded raw ticks are in range too, and the cast keeps them.\<close>

lemma np_round_in_range:
  assumes "- (2 ^ 63) \<le> r" "r \<le> 2 ^ 63 - 1"
  shows "- (2 ^ 63) \<le> np_round r" "np_round r < 2 ^ 63"
proof -
  have "real_of_int (- (2 ^ 63)) \<le> r" using assms(1) by simp
  then have "np_round (real_of_int (- (2 ^ 63))) \<le> np_round r" by (rule np_round_mono)
  then show "- (2 ^ 63) \<le> np_round r" by (simp only: np_round_of_int)
  have "r \<le> real_of_int (2 ^ 63 - 1)" using assms(2) by simp
  then have "np_round r \<le> np_round (real_of_int (2 ^ 63 - 1))" by (rule np_round_mono)
  then have "np_round r \<le> 2 ^ 63 - 1" by (simp only: np_round_of_int)
  then show "np_round r < 2 ^ 63" by simp
qed

lemma astype_int_tick:
  assumes "- (2 ^ 63) \<le> vmin" "vmin \<le> vmax" "vmax \<le> 2 ^ 63 - 1"
    and "r \<in> set (linspace vmin vmax n)"
  shows "astype_int (np_round r) = np_round r"
proof -
  have "- (2 ^ 63) \<le> r" "r \<le> 2 ^ 63 - 1"
    using linspace_bounds [OF assms(2) assms(4)] assms(1) assms(3) by linarith+
  then show ?thesis by (intro astype_int_in_range np_round_in_range)
qed

lemma sorted_map_upt:
  fixes f :: "nat \<Rightarrow> real"
  assumes "\<And>i j. i \<le> j \<Longrightarrow> f i \<le> f j"
  shows "sorted (map f [0..<n])"
  by (induction n) (auto simp: sorted_append assms)

lemma sorted_linspace:
  assumes "a \<le> b"
  shows "sorted (linspace a b n)"
proof -
  define d where "d = (b - a) / real (n - 1)"
  have "0 \<le> d" using assms by (simp add: d_def)
  then have "a + real i * d \<le> a + real j * d" if "i \<le> j" for i j
    using that by (intro add_left_mono mult_right_mono) simp_all
  then have "sorted (map (\<lambda>i. a + real i * d) [0..<n])"
    by (rule sorted_map_upt)
  then show ?thesis
    unfolding linspace_eq d_def .
qed

lemma sorted_map_mono:
  fixes f :: "real \<Rightarrow> real"
  shows "mono f \<Longrightarrow> sorted xs \<Longrightarrow> sorted (map f xs)"
  by (induction xs) (auto dest: monoD)

lemma upt_0_3: "[0..<3] = [0, 1, 2]"
  by code_simp

lemma linspace_0_2p64_3: "linspace 0 18446744073709551616 3 = [0, 9223372036854775808, 18446744073709551616]"
  by (simp add: linspace_def upt_0_3)

lemma np_round_2p63: "np_round 9223372036854775808 = 9223372036854775808"
  "np_round 18446744073709551616 = 18446744073709551616"
  using np_round_of_int [of 9223372036854775808] np_round_of_int [of 18446744073709551616]
    np_round_of_int [of 0]
  by simp_all

lemma np_round_0: "np_round 0 = 0"
  using np_round_of_int [of 0] by simp

text \<open>
  C9, as stated, fails: the ticks of the rate metric are cast to 64-bit integers, and a
  tick of \<open>2^63\<close> or more becomes the smallest 64-bit integer. For the domain
  \<open>[0, 2^64]\<close> with three ticks the ticks are \<open>0\<close>, \<open>-2^63\<close>, \<open>-2^63\<close>.
\<close>

theorem rate_ticks_overflow_counterexample:
  "legend_ticks 0 (2 ^ 64) 3 False = [0, - (2 ^ 63), - (2 ^ 63)] \<and>
   \<not> sorted (legend_ticks 0 (2 ^ 64) 3 False)"
proof -
  have "legend_ticks 0 (2 ^ 64) 3 False = [0, - (2 ^ 63), - (2 ^ 63)]"
    by (simp add: legend_ticks_def linspace_0_2p64_3 np_round_2p63 np_round_0 astype_int_def)
  then show ?thesis by simp
qed

lemma tick_domain_rate:
  "tick_domain False vmin vmax \<Longrightarrow> - (2 ^ 63) \<le> vmin \<and> vmin \<le> vmax \<and> vmax \<le> 2 ^ 63 - 1"
  by (simp add: tick_domain_def)

lemma tick_domain_demo:
  "tick_domain True 0 3" "tick_domain True (- 1) 2" "tick_domain False (1 / 2) (13 / 2)"
  by (simp_all add: tick_domain_def)

text \<open>
  C9, amended. For either kind of metric, a domain with \<open>vmin \<le> vmax\<close> whose ticks the
  tick type holds (for a money metric doubles up to \<open>2^1022\<close> in magnitude, for the rate
  metric 64-bit integers, \<open>-2^63 \<le> vmin\<close> and \<open>vmax \<le> 2^63 - 1\<close>) and any number of
  ticks, the rounded tick values are non-decreasing from left to right.
\<close>

theorem legend_ticks_sorted:
  assumes "tick_domain money_mode vmin vmax"
  shows "sorted (legend_ticks vmin vmax n_ticks money_mode)"
proof -
  have le: "vmin \<le> vmax" using assms by (simp add: tick_domain_def)
  have s: "sorted (linspace vmin vmax n_ticks)" using le by (rule sorted_linspace)
  have m1: "mono (\<lambda>r::real. real_of_int (np_round (r * 2)) / 2)"
    by (intro monoI) (simp add: np_round_mono divide_right_mono)
  have m2: "mono (\<lambda>r::real. real_of_int (np_round r))"
    by (intro monoI) (simp add: np_round_mono)
  show ?thesis
  proof (cases money_mode)
    case True
    then show ?thesis using sorted_map_mono [OF m1 s] by (simp add: legend_ticks_def)
  next
    case False
    with assms have b: "- (2 ^ 63) \<le> vmin" "vmax \<le> 2 ^ 63 - 1"
      using tick_domain_rate [of vmin vmax] by simp_all
    have "map (\<lambda>r. real_of_int (astype_int (np_round r))) (linspace vmin vmax n_ticks)
          = map (\<lambda>r. real_of_int (np_round r)) (linspace vmin vmax n_ticks)"
      using astype_int_tick [OF b(1) le b(2)] by (intro map_cong) simp_all
    then have "legend_ticks vmin vmax n_ticks money_mode
          = map (\<lambda>r. real_of_int (np_round r)) (linspace vmin vmax n_ticks)"
      using False by (simp only: legend_ticks_def Let_def if_False)
    then show ?thesis using sorted_map_mono [OF m2 s] by (simp only:)
  qed
qed

theorem legend_ticks_sorted_witness:
  "sorted (legend_ticks 0 3 7 True) \<and> sorted (legend_ticks (1 / 2) (13 / 2) 7 False)"
  using legend_ticks_sorted [OF tick_domain_demo(1), of 7]
        legend_ticks_sorted [OF tick_domain_demo(3), of 7]
  by simp










lemma half_units_digits:
  fixes n :: nat
  shows "50 * n div 100 = n div 2" "50 * n mod 10 = 0"
    "50 * n mod 100 div 10 = (if even n then 0 else 5)"
proof -
  show "50 * n div 100 = n div 2" by simp
  have "50 * n = 10 * (5 * n)" by simp
  then show "50 * n mod 10 = 0" by (simp only: mod_mult_self1_is_0)
  show "50 * n mod 100 div 10 = (if even n then 0 else 5)"
  proof (cases "even n")
    case True
    then obtain m where "n = 2 * m" by (auto elim: evenE)
    then show ?thesis by simp
  next
    case False
    then obtain m where "n = 2 * m + 1" by (auto elim: oddE)
    then show ?thesis by simp
  qed
qed

lemma fmt_2f_half: "fmt_2f negative \<bar>real_of_int k / 2\<bar> = half_unit_label negative k"
proof -
  have "\<bar>real_of_int k / 2\<bar> * 100 = real_of_int (50 * \<bar>k\<bar>)" by simp
  then have "np_round (\<bar>real_of_int k / 2\<bar> * 100) = 50 * \<bar>k\<bar>"
    by (simp only: np_round_of_int)
  then have n: "nat (np_round (\<bar>real_of_int k / 2\<bar> * 100)) = 50 * nat \<bar>k\<bar>"
    by (simp add: nat_mult_distrib)
  have e: "even (nat \<bar>k\<bar>) = even k" by (simp add: even_nat_iff)
  show ?thesis
    unfolding fmt_2f_def half_unit_label_def Let_def n half_units_digits e
    by (simp add: digit_def)
qed

lemma fmt_2f_half': "fmt_2f negative (\<bar>real_of_int k\<bar> / 2) = half_unit_label negative k"
  using fmt_2f_half [of negative k] by simp


lemma legend_labels_money:
  "legend_labels vmin vmax n_ticks True =
     map (\<lambda>r. half_unit_label (r < 0) (np_round (r * 2))) (linspace vmin vmax n_ticks)"
  by (simp add: legend_labels_def fmt_2f_half')





lemma half_unit_label_vals:
  "half_unit_label False 0 = ''0.00''" "half_unit_label False 1 = ''0.50''"
  "half_unit_label False 2 = ''1.00''" "half_unit_label False 3 = ''1.50''"
  "half_unit_label False 4 = ''2.00''" "half_unit_label False 5 = ''2.50''"
  "half_unit_label False 6 = ''3.00''"
  "half_unit_label True 0 = ''-0.00''" "half_unit_label True (- 2) = ''-1.00''"
  by (simp_all add: half_unit_label_def dec_str.simps digit_def)

lemma np_round_numerals:
  "np_round 0 = 0" "np_round 1 = 1" "np_round 2 = 2" "np_round 3 = 3"
  "np_round 4 = 4" "np_round 5 = 5" "np_round 6 = 6" "np_round (- 2) = - 2"
  using np_round_of_int [of 0] np_round_of_int [of 1] np_round_of_int [of 2]
    np_round_of_int [of 3] np_round_of_int [of 4] np_round_of_int [of 5] np_round_of_int [of 6]
    np_round_of_int [of "- 2"]
  by simp_all

lemma np_round_halves:
  "np_round (1 / 2) = 0" "np_round (3 / 2) = 2" "np_round (5 / 2) = 2" "np_round (7 / 2) = 4"
  "np_round (9 / 2) = 4" "np_round (11 / 2) = 6" "np_round (13 / 2) = 6"
  "np_round (- (1 / 4)) = 0"
  by (simp_all add: np_round_def)

text \<open>A money tick that rounds to zero from below is printed as a negative zero.\<close>

lemma negative_zero_label: "legend_labels (- 1) (- (1 / 8)) 2 True = [''-1.00'', ''-0.00'']"
proof -
  have "[0..<2] = [0, 1]" by code_simp
  then have "linspace (- 1) (- (1 / 8)) 2 = [- 1, - (1 / 8)]"
    by (simp add: linspace_def)
  then show ?thesis
    by (simp add: legend_labels_money np_round_numerals np_round_halves half_unit_label_vals)
qed




subsection \<open>Input tables\<close>

lemma count_col_present: "g ''num_trips'' = Some col \<Longrightarrow> count_col g = ''num_trips''"
  by (simp add: count_col_def domIff)

lemma count_col_absent: "g ''num_trips'' = None \<Longrightarrow> count_col g = ''num_tips''"
  by (simp add: count_col_def domIff)

text \<open>
  C10. The trip-count column is \<open>num_trips\<close> whenever the table has it: the tooltip
  counts are then formatted from that column, and whether a column \<open>num_tips\<close> is
  present too, and what it holds, makes no difference. Only a table without
  \<open>num_trips\<close> falls back to \<open>num_tips\<close> (and fails with a key error when that is
  absent as well).
\<close>

theorem count_col_precedence:
  "(g ''num_trips'' = Some col \<longrightarrow>
      count_col g = ''num_trips'' \<and> num_trips_s g = Inr (map trips_cell col) \<and>
      num_trips_s (g(''num_tips'' := other)) = num_trips_s g) \<and>
   (g ''num_trips'' = None \<longrightarrow>
      count_col g = ''num_tips'' \<and>
      num_trips_s g = (case g ''num_tips'' of
                         None \<Rightarrow> Inl (KeyError ''num_tips'')
                       | Some col \<Rightarrow> Inr (map trips_cell col)))"
proof (intro conjI impI)
  assume p: "g ''num_trips'' = Some col"
  then show "count_col g = ''num_trips''" by (rule count_col_present)
  show "num_trips_s g = Inr (map trips_cell col)"
    using p by (simp add: num_trips_s_def count_col_present)
  have "(g(''num_tips'' := other)) ''num_trips'' = Some col" using p by simp
  then have "num_trips_s (g(''num_tips'' := other)) = Inr (map trips_cell col)"
    by (simp add: num_trips_s_def count_col_present)
  then show "num_trips_s (g(''num_tips'' := other)) = num_trips_s g"
    using p by (simp add: num_trips_s_def count_col_present)
next
  assume a: "g ''num_trips'' = None"
  then show "count_col g = ''num_tips''" by (rule count_col_absent)
  show "num_trips_s g = (case g ''num_tips'' of
                         None \<Rightarrow> Inl (KeyError ''num_tips'')
                       | Some col \<Rightarrow> Inr (map trips_cell col))"
    using a by (simp add: num_trips_s_def count_col_absent split: option.splits)
qed

lemma trips_cell_vals:
  "trips_cell (Some 1234567) = ''1,234,567''" "trips_cell None = em_dash"
  "trips_cell (Some 5) = ''5''"
  by (simp_all add: trips_cell_def fmt_thousands_def py_int_def dec_str.simps digit_def)

theorem count_col_precedence_witness:
  "num_trips_s [''num_trips'' \<mapsto> [Some 1234567, None], ''num_tips'' \<mapsto> [Some 5]]
     = Inr [''1,234,567'', em_dash] \<and>
   num_trips_s [''num_tips'' \<mapsto> [Some 5]] = Inr [''5'']"
  using count_col_precedence [of "[''num_trips'' \<mapsto> [Some 1234567, None], ''num_tips'' \<mapsto> [Some 5]]" "[Some 1234567, None]" "Some [Some 5]"]
        count_col_precedence [of "[''num_tips'' \<mapsto> [Some 5]]" "[]" None]
  by (simp add: trips_cell_vals)

section \<open>Properties of the controller\<close>

subsection \<open>Hiding, recoloring and binding\<close>

lemma hideAllYears_loop_fields:
  "window (hideAllYears_loop reg s) = window s"
  "legend_dom (hideAllYears_loop reg s) = legend_dom s"
  "metric_sel (hideAllYears_loop reg s) = metric_sel s"
  "year_sel (hideAllYears_loop reg s) = year_sel s"
  "console (hideAllYears_loop reg s) = console s"
  by (induction reg s rule: hideAllYears_loop.induct;
      simp add: layerFromVar_def split: option.splits)+

lemma hideAllYears_loop_on_map:
  "on_map (hideAllYears_loop reg s) =
     on_map s - {v \<in> snd ` set reg. map_of (window s) v \<noteq> None}"
proof (induction reg s rule: hideAllYears_loop.induct)
  case (1 s)
  then show ?case by simp
next
  case (2 year vname rest s)
  let ?s' = "case layerFromVar s (Some vname) of
          Some lyr \<Rightarrow> if vname \<in> on_map s then s\<lparr>on_map := on_map s - {vname}\<rparr> else s
        | None \<Rightarrow> s"
  have w: "window ?s' = window s" by (simp split: option.splits)
  have o: "on_map ?s' = on_map s - {v. v = vname \<and> map_of (window s) v \<noteq> None}"
    by (auto simp: layerFromVar_def split: option.splits)
  have "on_map (hideAllYears_loop ((year, vname) # rest) s) = on_map (hideAllYears_loop rest ?s')"
    by simp
  also have "\<dots> = on_map ?s' - {v \<in> snd ` set rest. map_of (window ?s') v \<noteq> None}"
    by (rule 2)
  also have "\<dots> = on_map s - {v \<in> snd ` set ((year, vname) # rest). map_of (window s) v \<noteq> None}"
    unfolding w o by auto
  finally show ?case .
qed

lemma hideAllYears_fields:
  "window (hideAllYears c s) = window s"
  "legend_dom (hideAllYears c s) = legend_dom s"
  "metric_sel (hideAllYears c s) = metric_sel s"
  "year_sel (hideAllYears c s) = year_sel s"
  "console (hideAllYears c s) = console s"
  by (simp_all add: hideAllYears_def hideAllYears_loop_fields)

lemma hideAllYears_on_map: "on_map (hideAllYears c s) = on_map s - year_layers c s"
  by (auto simp: hideAllYears_def hideAllYears_loop_on_map year_layers_def layerFromVar_def)

lemma layerFromVar_hideAllYears: "layerFromVar (hideAllYears c s) v = layerFromVar s v"
  by (cases v) (simp_all add: layerFromVar_def hideAllYears_fields)

lemma year_layers_window: "window s' = window s \<Longrightarrow> year_layers c s' = year_layers c s"
  by (simp add: year_layers_def layerFromVar_def)

lemma showYearAndMetric_missing:
  assumes "layerFromVar s (map_of (YEAR_TO_VARNAME c) year) = None"
  shows "showYearAndMetric c s m year =
           (hideAllYears c s)\<lparr>console := console s @ [(year, map_of (YEAR_TO_VARNAME c) year)]\<rparr>"
proof (cases "map_of (YEAR_TO_VARNAME c) year")
  case None
  then show ?thesis
    by (simp add: showYearAndMetric_def Let_def hideAllYears_fields)
next
  case (Some v)
  then have "layerFromVar (hideAllYears c s) (Some v) = None"
    using assms by (simp add: layerFromVar_hideAllYears)
  with Some show ?thesis
    by (simp add: showYearAndMetric_def Let_def hideAllYears_fields)
qed

lemma showYearAndMetric_found:
  assumes "map_of (YEAR_TO_VARNAME c) year = Some v" "map_of (window s) v = Some lyr"
  shows "showYearAndMetric c s m year =
           addLegend c m
             ((hideAllYears c s)
                \<lparr>on_map := insert v (on_map s - year_layers c s),
                 window := AList.update v
                             (attachHighlightHandlers (recolorLayerByMetric lyr m)) (window s)\<rparr>)"
  using assms
  by (simp add: showYearAndMetric_def Let_def layerFromVar_hideAllYears hideAllYears_fields
        hideAllYears_on_map layerFromVar_def)

lemma addLegend_fields:
  "window (addLegend c m s) = window s"
  "on_map (addLegend c m s) = on_map s"
  "metric_sel (addLegend c m s) = metric_sel s"
  "year_sel (addLegend c m s) = year_sel s"
  "console (addLegend c m s) = console s"
  "legend_dom (addLegend c m s) = tl (legend_dom s) @ [LEGEND_BY_METRIC c m]"
  by (simp_all add: addLegend_def removeLegend_def Let_def split: list.splits)

lemma fill_of_update:
  "cp \<noteq> ''cur_color'' \<Longrightarrow> fill_of (AList.update ''cur_color'' x p) cp = fill_of p cp"
  by (simp add: fill_of_def update_conv')


lemma applyToLayer_idem:
  "cp \<noteq> ''cur_color'' \<Longrightarrow> applyToLayer cp (applyToLayer cp l) = applyToLayer cp l"
proof (induction l rule: features.induct)
  case (1 ps st kids bound hs)
  note ne = \<open>cp \<noteq> ''cur_color''\<close>
  show ?case
  proof (cases kids)
    case None
    then show ?thesis using ne
      by (cases ps; cases st) (simp_all add: fill_of_update)
  next
    case (Some ks)
    have "map (\<lambda>k. applyToLayer cp (applyToLayer cp k)) ks = map (applyToLayer cp) ks"
      using 1 Some by (intro map_cong) auto
    then show ?thesis using Some ne
      by (cases ps; cases st) (simp_all add: fill_of_update comp_def)
  qed
qed



lemma bindHighlight_idem: "bindHighlight (bindHighlight k) = bindHighlight k"
  by (cases k) (simp add: bindHighlight_def)

lemma attachHighlightHandlers_idem:
  "attachHighlightHandlers (attachHighlightHandlers l) = attachHighlightHandlers l"
proof (cases l)
  case (Layer ps st kids bound hs)
  then show ?thesis
    by (cases kids) (simp_all add: attachHighlightHandlers_def bindHighlight_idem comp_def)
qed

lemma applyToLayer_bindHighlight:
  "applyToLayer cp (bindHighlight k) = bindHighlight (applyToLayer cp k)"
  by (cases k) (simp add: bindHighlight_def)

lemma applyToLayer_attachHighlightHandlers:
  "applyToLayer cp (attachHighlightHandlers l) = attachHighlightHandlers (applyToLayer cp l)"
proof (cases l)
  case (Layer ps st kids bound hs)
  then show ?thesis
    by (cases kids) (simp_all add: attachHighlightHandlers_def applyToLayer_bindHighlight comp_def)
qed

lemma color_prop_neq: "''color_'' @ metric_name m \<noteq> ''cur_color''"
  by simp

lemma enter_layer_idem:
  "attachHighlightHandlers (recolorLayerByMetric
      (attachHighlightHandlers (recolorLayerByMetric l m)) m)
   = attachHighlightHandlers (recolorLayerByMetric l m)"
  by (simp only: recolorLayerByMetric_def applyToLayer_attachHighlightHandlers
        applyToLayer_idem [OF color_prop_neq] attachHighlightHandlers_idem)

subsection \<open>A year without a layer\<close>

lemma demo_lookup_2017:
  "layerFromVar demo_page (map_of (YEAR_TO_VARNAME demo_artifact) ''2017'') = None"
  by (simp add: demo_artifact_def layerFromVar_def)

lemma demo_year_layers:
  "year_layers demo_artifact demo_page = {''feature_group_a'', ''feature_group_b''}"
  by (simp add: year_layers_def demo_artifact_def demo_page_def layerFromVar_def)

text \<open>
  C1, as stated, fails: every year layer is detached before the requested year is looked
  up, so when the lookup fails the layer that was visible is no longer on the map. On
  the small page the layer of 2015 is attached; asking for 2017, which has no layer,
  leaves the map without any year layer.
\<close>

theorem missing_year_detaches_counterexample:
  "layerFromVar demo_page (map_of (YEAR_TO_VARNAME demo_artifact) ''2017'') = None \<and>
   on_map demo_page = {''feature_group_a''} \<and>
   on_map (showYearAndMetric demo_artifact demo_page avg_tip ''2017'') = {}"
proof -
  have "on_map (showYearAndMetric demo_artifact demo_page avg_tip ''2017'')
        = on_map demo_page - year_layers demo_artifact demo_page"
    by (simp add: showYearAndMetric_missing [OF demo_lookup_2017] hideAllYears_on_map)
  then show ?thesis
    by (simp add: demo_lookup_2017 demo_year_layers) (simp add: demo_page_def)
qed

text \<open>
  C1, amended. When the requested year has no layer, the controller reports the year and
  the variable name it looked up on the console, detaches every year layer (the one that
  was visible included), and leaves the layers themselves, with their colors, and the
  legend as they were.
\<close>

theorem show_missing_year:
  assumes "layerFromVar s (map_of (YEAR_TO_VARNAME c) year) = None"
  shows "console (showYearAndMetric c s m year) =
           console s @ [(year, map_of (YEAR_TO_VARNAME c) year)] \<and>
         on_map (showYearAndMetric c s m year) = on_map s - year_layers c s \<and>
         window (showYearAndMetric c s m year) = window s \<and>
         legend_dom (showYearAndMetric c s m year) = legend_dom s"
  by (simp add: showYearAndMetric_missing [OF assms] hideAllYears_fields hideAllYears_on_map)

theorem show_missing_year_witness:
  "console (showYearAndMetric demo_artifact demo_page med_tip ''2017'') = [(''2017'', None)] \<and>
   on_map (showYearAndMetric demo_artifact demo_page med_tip ''2017'') = {} \<and>
   window (showYearAndMetric demo_artifact demo_page med_tip ''2017'') = window demo_page \<and>
   legend_dom (showYearAndMetric demo_artifact demo_page med_tip ''2017'')
     = [''<div id=tip-legend>avg_tip</div>'']"
  using show_missing_year [OF demo_lookup_2017, of med_tip]
  by (simp add: demo_year_layers) (simp add: demo_page_def demo_artifact_def)

subsection \<open>Entering the same state again\<close>

lemma layerFromVar_window:
  "window s' = window s \<Longrightarrow> layerFromVar s' v = layerFromVar s v"
  by (cases v) (simp_all add: layerFromVar_def)

lemma year_layers_update:
  assumes "map_of (window s) v = Some lyr" "window s' = AList.update v l' (window s)"
  shows "year_layers c s' = year_layers c s"
proof -
  have "(map_of (window s') u \<noteq> None) = (map_of (window s) u \<noteq> None)" for u
    using assms by (simp add: update_conv')
  then show ?thesis by (simp add: year_layers_def layerFromVar_def)
qed

lemma year_layers_registered:
  "map_of (YEAR_TO_VARNAME c) year = Some v \<Longrightarrow> map_of (window s) v = Some lyr \<Longrightarrow>
   v \<in> year_layers c s"
  by (force simp: year_layers_def layerFromVar_def dest: map_of_SomeD)

lemma demo_lookup_2016:
  "map_of (YEAR_TO_VARNAME demo_artifact) ''2016'' = Some ''feature_group_b''"
  "map_of (window demo_page) ''feature_group_b'' =
     Some (Layer None (Some []) (Some [demo_zone ''#fdae61ff'' ''#d9ef8bff'' ''#66bd63ff''])
                False [])"
  by (simp_all add: demo_artifact_def demo_page_def)

lemma demo_enter_2016:
  "window (showYearAndMetric demo_artifact demo_page med_tip ''2016'') =
     [(''feature_group_a'',
       Layer None (Some []) (Some [demo_zone ''#a50026ff'' ''#006837ff'' ''#cccccc'']) False []),
      (''feature_group_b'',
       Layer None (Some []) (Some
         [Layer None (Some []) (Some
            [Layer (Some [(''color_avg_tip'', ''#fdae61ff''), (''color_med_tip'', ''#d9ef8bff''),
                          (''color_avg_rate'', ''#66bd63ff''), (''cur_color'', ''#d9ef8bff''),
                          (''tooltip_html'', ''<div>zone</div>'')])
                   (Some [(''fillColor'', ''#d9ef8bff'')]) None False []])
            True [''mouseover'', ''mouseout'']])
         False [])]"
  unfolding showYearAndMetric_found [OF demo_lookup_2016]
  by (simp add: addLegend_fields)
     (simp add: demo_page_def demo_zone_def recolorLayerByMetric_def
        attachHighlightHandlers_def bindHighlight_def fill_of_def)

text \<open>
  C5. On a page with at most one legend element (the build writes exactly one), entering
  the state \<open>(m, y)\<close> a second time right after the first changes nothing that is
  visible: the same layers are attached, the legend is the same, and every layer object
  is the same, feature colors, bound flags and registered hover listeners included, so
  no listener is registered twice. This holds whether or not the year has a layer.
\<close>

theorem reenter_same_state:
  assumes "length (legend_dom s) \<le> 1"
  shows "on_map (showYearAndMetric c (showYearAndMetric c s m year) m year)
           = on_map (showYearAndMetric c s m year) \<and>
         window (showYearAndMetric c (showYearAndMetric c s m year) m year)
           = window (showYearAndMetric c s m year) \<and>
         legend_dom (showYearAndMetric c (showYearAndMetric c s m year) m year)
           = legend_dom (showYearAndMetric c s m year)"
proof (cases "layerFromVar s (map_of (YEAR_TO_VARNAME c) year)")
  case None
  let ?s1 = "showYearAndMetric c s m year"
  have s1: "?s1 = (hideAllYears c s)\<lparr>console := console s @ [(year, map_of (YEAR_TO_VARNAME c) year)]\<rparr>"
    using None by (rule showYearAndMetric_missing)
  have w1: "window ?s1 = window s" by (simp add: s1 hideAllYears_fields)
  have "layerFromVar ?s1 (map_of (YEAR_TO_VARNAME c) year) = None"
    using None by (simp add: layerFromVar_window [OF w1])
  then have s2: "showYearAndMetric c ?s1 m year =
      (hideAllYears c ?s1)\<lparr>console := console ?s1 @ [(year, map_of (YEAR_TO_VARNAME c) year)]\<rparr>"
    by (rule showYearAndMetric_missing)
  have o1: "on_map ?s1 = on_map s - year_layers c s"
    by (simp add: s1 hideAllYears_on_map)
  have "on_map (showYearAndMetric c ?s1 m year) = on_map ?s1 - year_layers c ?s1"
    by (subst s2) (simp add: hideAllYears_on_map)
  then have "on_map (showYearAndMetric c ?s1 m year) = on_map ?s1"
    by (auto simp: o1 year_layers_window [OF w1])
  moreover have "window (showYearAndMetric c ?s1 m year) = window ?s1"
    by (subst s2) (simp add: hideAllYears_fields)
  moreover have "legend_dom (showYearAndMetric c ?s1 m year) = legend_dom ?s1"
    by (subst s2) (simp add: hideAllYears_fields)
  ultimately show ?thesis by simp
next
  case (Some lyr)
  then obtain v where v: "map_of (YEAR_TO_VARNAME c) year = Some v"
    and l: "map_of (window s) v = Some lyr"
    by (cases "map_of (YEAR_TO_VARNAME c) year") (auto simp: layerFromVar_def)
  let ?l' = "attachHighlightHandlers (recolorLayerByMetric lyr m)"
  let ?s1 = "showYearAndMetric c s m year"
  note s1 = showYearAndMetric_found [OF v l, of m]
  have w1: "window ?s1 = AList.update v ?l' (window s)"
    by (simp add: s1 addLegend_fields)
  have o1: "on_map ?s1 = insert v (on_map s - year_layers c s)"
    by (simp add: s1 addLegend_fields)
  have g1: "legend_dom ?s1 = tl (legend_dom s) @ [LEGEND_BY_METRIC c m]"
    by (simp add: s1 addLegend_fields hideAllYears_fields)
  have l1: "map_of (window ?s1) v = Some ?l'"
    by (simp add: w1 update_conv')
  have y1: "year_layers c ?s1 = year_layers c s"
    using l w1 by (rule year_layers_update)
  note s2 = showYearAndMetric_found [OF v l1, of m]
  have "on_map (showYearAndMetric c ?s1 m year) = insert v (on_map ?s1 - year_layers c ?s1)"
    by (subst s2) (simp add: addLegend_fields)
  then have "on_map (showYearAndMetric c ?s1 m year) = on_map ?s1"
    using year_layers_registered [OF v l] by (auto simp: o1 y1)
  moreover have "window (showYearAndMetric c ?s1 m year) = window ?s1"
    by (subst s2) (simp add: addLegend_fields w1 enter_layer_idem)
  moreover have "legend_dom (showYearAndMetric c ?s1 m year) = legend_dom ?s1"
  proof -
    have "legend_dom (showYearAndMetric c ?s1 m year)
            = tl (legend_dom ?s1) @ [LEGEND_BY_METRIC c m]"
      by (subst s2) (simp add: addLegend_fields hideAllYears_fields)
    moreover have "tl (legend_dom s) = []"
      using assms by (cases "legend_dom s") simp_all
    ultimately show ?thesis by (simp add: g1)
  qed
  ultimately show ?thesis by simp
qed

theorem reenter_same_state_witness:
  "on_map (showYearAndMetric demo_artifact
             (showYearAndMetric demo_artifact demo_page med_tip ''2016'') med_tip ''2016'')
     = on_map (showYearAndMetric demo_artifact demo_page med_tip ''2016'') \<and>
   legend_dom (showYearAndMetric demo_artifact
             (showYearAndMetric demo_artifact demo_page med_tip ''2016'') med_tip ''2016'')
     = legend_dom (showYearAndMetric demo_artifact demo_page med_tip ''2016'') \<and>
   map_option child_handlers
     (map_of (window (showYearAndMetric demo_artifact
                (showYearAndMetric demo_artifact demo_page med_tip ''2016'') med_tip ''2016''))
        ''feature_group_b'')
     = Some [[''mouseover'', ''mouseout'']]"
proof -
  have "length (legend_dom demo_page) \<le> 1" by (simp add: demo_page_def)
  from reenter_same_state [OF this, of demo_artifact med_tip "''2016''"]
  show ?thesis by (simp add: demo_enter_2016 child_handlers_def)
qed

subsection \<open>The invariant of the view\<close>
















end
